theory Spec2Isabelle
  imports Complex_Main
begin

section \<open>The delta-v report of the rocket telemetry\<close>

text \<open>
  The development embeds \<^verbatim>\<open>RocketTelemetry.get_delta_v_status\<close>
  (\<^verbatim>\<open>server/src/utils/krpc_module/rocket_telemetry.py\<close>, lines 183--263).
  Python floats are idealised as real numbers: rounding, infinities and NaN are outside the
  model, and every statement below is about the exact arithmetic the code writes down.
  What Python raises is a value: a function that may raise returns \<open>error + 'a\<close>, with
  \<open>Inl\<close> carrying the exception.
\<close>

subsection \<open>Python primitives\<close>

datatype error = ZeroDivisionError | IndexError | ValueError

text \<open>Float division \<^verbatim>\<open>a / b\<close>: a zero divisor raises.\<close>

definition truediv :: "real \<Rightarrow> real \<Rightarrow> error + real" where
  "truediv a b = (if b = 0 then Inl ZeroDivisionError else Inr (a / b))"

text \<open>\<^verbatim>\<open>math.log(x)\<close>: a non-positive argument raises.\<close>

definition math_log :: "real \<Rightarrow> error + real" where
  "math_log x = (if x \<le> 0 then Inl ValueError else Inr (ln x))"

text \<open>
  Subscription \<^verbatim>\<open>xs[k]\<close>: an index below zero is counted from the end of the list, and
  an index outside the list raises.
\<close>

definition getitem :: "'a list \<Rightarrow> int \<Rightarrow> error + 'a" where
  "getitem xs k =
     (if 0 \<le> k \<and> k < int (length xs) then Inr (xs ! nat k)
      else if - int (length xs) \<le> k \<and> k < 0 then Inr (xs ! nat (int (length xs) + k))
      else Inl IndexError)"

text \<open>The builtin \<^verbatim>\<open>sum\<close>: it starts from 0 and adds the items from the left.\<close>

definition py_sum :: "real list \<Rightarrow> real" where
  "py_sum xs = foldl (+) 0 xs"

subsection \<open>Data\<close>

text \<open>
  One dictionary of \<^verbatim>\<open>get_all_engines_status\<close>, with the keys that
  \<^verbatim>\<open>get_delta_v_status\<close> reads. \<open>propellants\<close> holds, for each propellant of the
  engine, its \<^verbatim>\<open>total_resource_available\<close>.
\<close>

record engine_status =
  stage :: int
  max_thrust :: real
  max_vacuum_thrust :: real
  specific_impulse_at :: real
  vacuum_specific_impulse :: real
  propellants :: "real list"

text \<open>
  One dictionary of \<^verbatim>\<open>delta_v_list\<close>. The keys \<^verbatim>\<open>stage\<close> and
  \<^verbatim>\<open>max_thrust\<close> are prefixed here, since the engine's record has fields of these names.
\<close>

record delta_v_entry =
  entry_stage :: int
  start_mass :: real
  end_mass :: real
  burned_mass :: real
  entry_max_thrust :: real
  twr :: real
  slt :: real
  isp :: real
  atom_delta_v :: real
  vac_delta_v :: real
  time :: real

record delta_v_status =
  stage_delta_v_atom :: real
  stage_delta_v_vac :: real
  total_delta_v_atom :: real
  total_delta_v_vac :: real
  delta_v_list :: "delta_v_entry list"

text \<open>
  What the method reads from \<^verbatim>\<open>self\<close>: the masses of the three tagged part groups
  (\<^verbatim>\<open>self.satellite_bus.mass\<close>, \<^verbatim>\<open>self.first_stage.mass\<close>,
  \<^verbatim>\<open>self.second_stage.mass\<close>) and the list that
  \<^verbatim>\<open>self.get_all_engines_status()\<close> returns.
\<close>

record rocket_telemetry =
  satellite_bus_mass :: real
  first_stage_mass :: real
  second_stage_mass :: real
  all_engines_status :: "engine_status list"

subsection \<open>The helpers of the base class\<close>

text \<open>
  Modelled from the spec: \<^verbatim>\<open>calculate_delta_v\<close> and \<^verbatim>\<open>burn_time_estimation\<close>
  are methods of \<^verbatim>\<open>BaseRocket\<close> (\<^verbatim>\<open>base_rocket.py\<close>), which is not among the
  sources. Sections 4.2 and 4.3 of the specification give their contracts: the guard that
  returns \<open>0.0\<close>, and otherwise the rocket equation with \<open>g0 = 9.80665\<close>, respectively
  \<open>fuelMass * isp * g0 / thrust\<close>. The formulas are written with the raising primitives
  above, so that "returns without raising" is a property to prove, not one of the type.
\<close>

definition g0 :: real where
  "g0 = 9.80665"

definition calculate_delta_v :: "real \<Rightarrow> real \<Rightarrow> real \<Rightarrow> error + real" where
  "calculate_delta_v isp' fuel_mass start_mass' =
     (if fuel_mass \<le> 0 \<or> start_mass' - fuel_mass \<le> 0 \<or> isp' \<le> 0 then Inr 0
      else
        case truediv start_mass' (start_mass' - fuel_mass) of
          Inl e \<Rightarrow> Inl e
        | Inr ratio \<Rightarrow>
            (case math_log ratio of
               Inl e \<Rightarrow> Inl e
             | Inr l \<Rightarrow> Inr (isp' * g0 * l)))"

definition burn_time_estimation :: "real \<Rightarrow> real \<Rightarrow> real \<Rightarrow> error + real" where
  "burn_time_estimation isp' fuel_mass thrust =
     (if thrust \<le> 0 \<or> isp' \<le> 0 then Inr 0
      else truediv (fuel_mass * isp' * g0) thrust)"

subsection \<open>\<^verbatim>\<open>get_delta_v_status\<close>\<close>

text \<open>Lines 206--213: the list \<^verbatim>\<open>stages_start_mass\<close>.\<close>

definition stages_start_mass :: "rocket_telemetry \<Rightarrow> real list" where
  "stages_start_mass self =
     (let payload = satellite_bus_mass self;
          first = first_stage_mass self;
          second = second_stage_mass self
      in [payload + first, payload + first + second])"

text \<open>
  Lines 220--247: the body of the loop, for the engine at position \<open>i\<close>, in the order the
  statements run. The first statement that raises ends the call.
\<close>

definition engine_entry :: "real list \<Rightarrow> nat \<Rightarrow> engine_status \<Rightarrow> error + delta_v_entry" where
  "engine_entry masses i engine =
     (case getitem masses (min (int i) (int (length masses) - 1)) of
        Inl e \<Rightarrow> Inl e
      | Inr m \<Rightarrow>
     (let max_vac_thrust = max_vacuum_thrust engine;
          thrust = max_thrust engine;
          fuel_mass = py_sum (propellants engine);
          vac_isp = vacuum_specific_impulse engine;
          atom_isp = specific_impulse_at engine
      in
     (case truediv thrust (m * 9.81) of
        Inl e \<Rightarrow> Inl e
      | Inr slt_v \<Rightarrow>
     (case truediv max_vac_thrust (m * 9.81) of
        Inl e \<Rightarrow> Inl e
      | Inr twr_v \<Rightarrow>
     (case calculate_delta_v vac_isp fuel_mass m of
        Inl e \<Rightarrow> Inl e
      | Inr vac_dv \<Rightarrow>
     (case calculate_delta_v atom_isp fuel_mass m of
        Inl e \<Rightarrow> Inl e
      | Inr atom_dv \<Rightarrow>
     (case burn_time_estimation atom_isp fuel_mass thrust of
        Inl e \<Rightarrow> Inl e
      | Inr burn_time \<Rightarrow>
     Inr \<lparr> entry_stage = stage engine,
           start_mass = m,
           end_mass = m - fuel_mass,
           burned_mass = fuel_mass,
           entry_max_thrust = max_vac_thrust,
           twr = twr_v,
           slt = slt_v,
           isp = atom_isp,
           atom_delta_v = atom_dv,
           vac_delta_v = vac_dv,
           time = burn_time \<rparr>)))))))"

text \<open>
  Lines 217--247: \<^verbatim>\<open>for i, engine in enumerate(engines)\<close>, appending to
  \<^verbatim>\<open>delta_v_list\<close>.
\<close>

fun entries_loop ::
  "real list \<Rightarrow> nat \<Rightarrow> engine_status list \<Rightarrow> delta_v_entry list \<Rightarrow> error + delta_v_entry list"
where
  "entries_loop masses i [] acc = Inr acc"
| "entries_loop masses i (engine # rest) acc =
     (case engine_entry masses i engine of
        Inl e \<Rightarrow> Inl e
      | Inr d \<Rightarrow> entries_loop masses (Suc i) rest (acc @ [d]))"

text \<open>
  Lines 249--263: the totals, the figures of the last entry, and the dictionary returned.
  \<^verbatim>\<open>delta_v_list[-1]\<close> is read only when the list is not empty.
\<close>

definition last_field :: "(delta_v_entry \<Rightarrow> real) \<Rightarrow> delta_v_entry list \<Rightarrow> error + real" where
  "last_field f dvl =
     (if dvl \<noteq> [] then
        (case getitem dvl (- 1) of Inl e \<Rightarrow> Inl e | Inr d \<Rightarrow> Inr (f d))
      else Inr 0)"

definition reduce_entries :: "delta_v_entry list \<Rightarrow> error + delta_v_status" where
  "reduce_entries dvl =
     (let total_atom = py_sum (map atom_delta_v dvl);
          total_vac = py_sum (map vac_delta_v dvl)
      in
     (case last_field atom_delta_v dvl of
        Inl e \<Rightarrow> Inl e
      | Inr stage_atom \<Rightarrow>
     (case last_field vac_delta_v dvl of
        Inl e \<Rightarrow> Inl e
      | Inr stage_vac \<Rightarrow>
     Inr \<lparr> stage_delta_v_atom = stage_atom,
           stage_delta_v_vac = stage_vac,
           total_delta_v_atom = total_atom,
           total_delta_v_vac = total_vac,
           delta_v_list = dvl \<rparr>)))"

text \<open>
  Lines 215--263, as a function of the start masses and the engines: the specification's
  \<^verbatim>\<open>buildReport(engines, stageStartMasses)\<close>.
\<close>

definition build_report :: "engine_status list \<Rightarrow> real list \<Rightarrow> error + delta_v_status" where
  "build_report engines masses =
     (case entries_loop masses 0 engines [] of
        Inl e \<Rightarrow> Inl e
      | Inr dvl \<Rightarrow> reduce_entries dvl)"

definition get_delta_v_status :: "rocket_telemetry \<Rightarrow> error + delta_v_status" where
  "get_delta_v_status self = build_report (all_engines_status self) (stages_start_mass self)"

section \<open>Auxiliary facts\<close>

subsection \<open>The primitives\<close>

lemma foldl_add_sum_list: "foldl (+) a xs = a + sum_list xs" for a :: real
  by (induction xs arbitrary: a) simp_all

lemma py_sum_sum_list: "py_sum xs = sum_list xs"
  by (simp add: py_sum_def foldl_add_sum_list)

lemma getitem_clamp:
  assumes "masses \<noteq> []"
  shows "getitem masses (min (int i) (int (length masses) - 1)) =
         Inr (masses ! min i (length masses - 1))"
proof -
  from assms obtain n where n: "length masses = Suc n"
    by (cases masses) auto
  have k: "min (int i) (int (length masses) - 1) = int (min i n)"
    using n by (simp add: min_def)
  have "min i n < length masses"
    using n by simp
  then show ?thesis
    unfolding k using n by (simp add: getitem_def)
qed

lemma getitem_last:
  assumes "xs \<noteq> []"
  shows "getitem xs (- 1) = Inr (last xs)"
proof -
  from assms obtain n where n: "length xs = Suc n"
    by (cases xs) auto
  have "nat (int (length xs) + - 1) = n"
    using n by simp
  then show ?thesis
    using n assms by (simp add: getitem_def last_conv_nth)
qed

lemma getitem_empty: "getitem [] k = Inl IndexError"
  by (simp add: getitem_def)

subsection \<open>The helpers never raise\<close>

text \<open>
  Past the guard the divisor \<open>start_mass - fuel_mass\<close> is positive and the ratio exceeds 1,
  so neither the division nor the logarithm raises; likewise the thrust is positive where
  the burn time divides by it.
\<close>

lemma calculate_delta_v_returns:
  "calculate_delta_v i f s =
     Inr (if f \<le> 0 \<or> s - f \<le> 0 \<or> i \<le> 0 then 0 else i * 9.80665 * ln (s / (s - f)))"
  by (auto simp: calculate_delta_v_def truediv_def math_log_def g0_def divide_le_0_iff
      split: sum.splits)

lemma burn_time_estimation_returns:
  "burn_time_estimation i f t =
     Inr (if t \<le> 0 \<or> i \<le> 0 then 0 else f * i * 9.80665 / t)"
  by (auto simp: burn_time_estimation_def truediv_def g0_def)


lemma exp_ge_Taylor5: "(\<Sum>m<6. x ^ m / fact m) \<le> exp x" for x :: real
proof -
  obtain t where "exp x = (\<Sum>m<6. x ^ m / fact m) + exp t / fact 6 * x ^ 6"
    using Maclaurin_exp_le [of x 6] by blast
  moreover have "0 \<le> exp t / fact 6 * x ^ 6"
    by (intro mult_nonneg_nonneg divide_nonneg_nonneg) (simp_all add: zero_le_even_power)
  ultimately show ?thesis by linarith
qed

lemma ln_five_quarters_bounds: "0.22314 < ln (5 / 4 :: real)" "ln (5 / 4 :: real) < 0.22315"
proof -
  have "(4 / 5 :: real) < (\<Sum>m<6. (- 0.22314) ^ m / fact m)"
    by (simp add: lessThan_nat_numeral fact_numeral power_divide)
  also have "\<dots> \<le> exp (- 0.22314)"
    by (rule exp_ge_Taylor5)
  finally have "exp (0.22314 :: real) < 5 / 4"
    by (simp add: exp_minus field_simps)
  then have "ln (exp (0.22314 :: real)) < ln (5 / 4)"
    by (subst ln_less_cancel_iff) simp_all
  then show "0.22314 < ln (5 / 4 :: real)"
    by simp
next
  have "(5 / 4 :: real) < (\<Sum>m<6. 0.22315 ^ m / fact m)"
    by (simp add: lessThan_nat_numeral fact_numeral power_divide)
  also have "\<dots> \<le> exp 0.22315"
    by (rule exp_ge_Taylor5)
  finally have "ln (5 / 4 :: real) < ln (exp 0.22315)"
    by (subst ln_less_cancel_iff) simp_all
  then show "ln (5 / 4 :: real) < 0.22315"
    by simp
qed

subsection \<open>The reduction\<close>

lemma last_field_returns:
  "last_field f dvl = Inr (if dvl = [] then 0 else f (last dvl))"
  by (simp add: last_field_def getitem_last)

lemma reduce_entries_returns:
  "reduce_entries dvl =
     Inr \<lparr> stage_delta_v_atom = (if dvl = [] then 0 else atom_delta_v (last dvl)),
           stage_delta_v_vac = (if dvl = [] then 0 else vac_delta_v (last dvl)),
           total_delta_v_atom = sum_list (map atom_delta_v dvl),
           total_delta_v_vac = sum_list (map vac_delta_v dvl),
           delta_v_list = dvl \<rparr>"
  by (simp add: reduce_entries_def last_field_returns py_sum_sum_list)

lemma reduce_entries_Inr:
  assumes "reduce_entries dvl = Inr r"
  shows "delta_v_list r = dvl"
    and "total_delta_v_atom r = sum_list (map atom_delta_v dvl)"
    and "total_delta_v_vac r = sum_list (map vac_delta_v dvl)"
    and "stage_delta_v_atom r = (if dvl = [] then 0 else atom_delta_v (last dvl))"
    and "stage_delta_v_vac r = (if dvl = [] then 0 else vac_delta_v (last dvl))"
proof -
  from assms have r: "r = \<lparr> stage_delta_v_atom = (if dvl = [] then 0 else atom_delta_v (last dvl)),
           stage_delta_v_vac = (if dvl = [] then 0 else vac_delta_v (last dvl)),
           total_delta_v_atom = sum_list (map atom_delta_v dvl),
           total_delta_v_vac = sum_list (map vac_delta_v dvl),
           delta_v_list = dvl \<rparr>"
    by (simp add: reduce_entries_returns)
  show "delta_v_list r = dvl" by (simp add: r)
  show "total_delta_v_atom r = sum_list (map atom_delta_v dvl)" by (simp add: r)
  show "total_delta_v_vac r = sum_list (map vac_delta_v dvl)" by (simp add: r)
  show "stage_delta_v_atom r = (if dvl = [] then 0 else atom_delta_v (last dvl))"
    by (simp add: r)
  show "stage_delta_v_vac r = (if dvl = [] then 0 else vac_delta_v (last dvl))"
    by (simp add: r)
qed

subsection \<open>One engine\<close>

text \<open>
  The body of the loop raises in two cases only: \<^verbatim>\<open>IndexError\<close> on an empty list of
  start masses, and \<^verbatim>\<open>ZeroDivisionError\<close> when the start mass of the engine is zero
  (line 226). Otherwise it returns the entry whose fields are listed in
  \<open>engine_entry_fields\<close>.
\<close>

lemma engine_entry_no_masses: "engine_entry [] i engine = Inl IndexError"
  by (simp add: engine_entry_def getitem_empty)

lemma engine_entry_zero_mass:
  assumes "masses \<noteq> []" and "masses ! min i (length masses - 1) = 0"
  shows "engine_entry masses i engine = Inl ZeroDivisionError"
  using assms by (simp add: engine_entry_def getitem_clamp truediv_def)

lemma engine_entry_returns:
  assumes "masses \<noteq> []" and "masses ! min i (length masses - 1) \<noteq> 0"
  shows "\<exists>d. engine_entry masses i engine = Inr d"
  using assms
  by (simp add: engine_entry_def getitem_clamp truediv_def Let_def
      calculate_delta_v_returns burn_time_estimation_returns)

lemma engine_entry_fields:
  assumes "engine_entry masses i engine = Inr d"
  shows "masses \<noteq> []"
    and "start_mass d = masses ! min i (length masses - 1)"
    and "start_mass d \<noteq> 0"
    and "entry_stage d = stage engine"
    and "burned_mass d = sum_list (propellants engine)"
    and "end_mass d = start_mass d - sum_list (propellants engine)"
    and "entry_max_thrust d = max_vacuum_thrust engine"
    and "twr d = max_vacuum_thrust engine / (start_mass d * 9.81)"
    and "slt d = max_thrust engine / (start_mass d * 9.81)"
    and "isp d = specific_impulse_at engine"
    and "calculate_delta_v (vacuum_specific_impulse engine) (sum_list (propellants engine))
           (start_mass d) = Inr (vac_delta_v d)"
    and "calculate_delta_v (specific_impulse_at engine) (sum_list (propellants engine))
           (start_mass d) = Inr (atom_delta_v d)"
    and "burn_time_estimation (specific_impulse_at engine) (sum_list (propellants engine))
           (max_thrust engine) = Inr (time d)"
proof -
  show ne: "masses \<noteq> []"
    using assms by (auto simp: engine_entry_no_masses)
  let ?m = "masses ! min i (length masses - 1)"
  have nz: "?m \<noteq> 0"
    using assms engine_entry_zero_mass [OF ne, of i engine] by auto
  have d: "d = \<lparr> entry_stage = stage engine,
           start_mass = ?m,
           end_mass = ?m - sum_list (propellants engine),
           burned_mass = sum_list (propellants engine),
           entry_max_thrust = max_vacuum_thrust engine,
           twr = max_vacuum_thrust engine / (?m * 9.81),
           slt = max_thrust engine / (?m * 9.81),
           isp = specific_impulse_at engine,
           atom_delta_v = projr (calculate_delta_v (specific_impulse_at engine)
              (sum_list (propellants engine)) ?m),
           vac_delta_v = projr (calculate_delta_v (vacuum_specific_impulse engine)
              (sum_list (propellants engine)) ?m),
           time = projr (burn_time_estimation (specific_impulse_at engine)
              (sum_list (propellants engine)) (max_thrust engine)) \<rparr>"
    using assms nz
    by (simp add: engine_entry_def getitem_clamp [OF ne] truediv_def Let_def py_sum_sum_list
        calculate_delta_v_returns burn_time_estimation_returns)
  show "start_mass d = ?m" by (simp add: d)
  then show "start_mass d \<noteq> 0" using nz by simp
  show "entry_stage d = stage engine" by (simp add: d)
  show "burned_mass d = sum_list (propellants engine)" by (simp add: d)
  show "end_mass d = start_mass d - sum_list (propellants engine)" by (simp add: d)
  show "entry_max_thrust d = max_vacuum_thrust engine" by (simp add: d)
  show "twr d = max_vacuum_thrust engine / (start_mass d * 9.81)" by (simp add: d)
  show "slt d = max_thrust engine / (start_mass d * 9.81)" by (simp add: d)
  show "isp d = specific_impulse_at engine" by (simp add: d)
  show "calculate_delta_v (vacuum_specific_impulse engine) (sum_list (propellants engine))
           (start_mass d) = Inr (vac_delta_v d)"
    by (simp add: d calculate_delta_v_returns)
  show "calculate_delta_v (specific_impulse_at engine) (sum_list (propellants engine))
           (start_mass d) = Inr (atom_delta_v d)"
    by (simp add: d calculate_delta_v_returns)
  show "burn_time_estimation (specific_impulse_at engine) (sum_list (propellants engine))
           (max_thrust engine) = Inr (time d)"
    by (simp add: d burn_time_estimation_returns)
qed

subsection \<open>The loop and the report\<close>

text \<open>
  The loop is characterised for every starting index and every accumulator, by induction
  on the engines: a returned list extends the accumulator by one entry for each engine, in
  order, and an exception is the one of some engine's body.
\<close>

lemma entries_loop_Inr:
  assumes "entries_loop masses i engines acc = Inr dvl"
  shows "length dvl = length acc + length engines"
    and "take (length acc) dvl = acc"
    and "\<And>k. k < length engines \<Longrightarrow>
           engine_entry masses (i + k) (engines ! k) = Inr (dvl ! (length acc + k))"
  using assms
proof (induction engines arbitrary: i acc)
  case Nil
  { case 1 then show ?case by simp }
  { case 2 then show ?case by simp }
  { case 3 then show ?case by simp }
next
  case (Cons engine rest)
  { case 1
    then obtain d where d: "engine_entry masses i engine = Inr d"
      and r: "entries_loop masses (Suc i) rest (acc @ [d]) = Inr dvl"
      by (auto split: sum.splits)
    from Cons.IH(1) [OF r] show ?case by simp }
  { case 2
    then obtain d where d: "engine_entry masses i engine = Inr d"
      and r: "entries_loop masses (Suc i) rest (acc @ [d]) = Inr dvl"
      by (auto split: sum.splits)
    from Cons.IH(2) [OF r] have "take (Suc (length acc)) dvl = acc @ [d]" by simp
    then have "take (length acc) (take (Suc (length acc)) dvl) = take (length acc) (acc @ [d])"
      by simp
    then show ?case by simp }
  { case (3 k)
    then obtain d where d: "engine_entry masses i engine = Inr d"
      and r: "entries_loop masses (Suc i) rest (acc @ [d]) = Inr dvl"
      by (auto split: sum.splits)
    show ?case
    proof (cases k)
      case 0
      from Cons.IH(2) [OF r] have t: "take (Suc (length acc)) dvl = acc @ [d]" by simp
      from Cons.IH(1) [OF r] have "length acc < length dvl" by simp
      then have "dvl ! length acc = take (Suc (length acc)) dvl ! length acc" by simp
      also have "\<dots> = d" unfolding t by simp
      finally show ?thesis using 0 d by simp
    next
      case (Suc j)
      with 3 have "j < length rest" by simp
      from Cons.IH(3) [OF this r] show ?thesis using Suc by simp
    qed }
qed

lemma entries_loop_Inl:
  assumes "entries_loop masses i engines acc = Inl err"
  shows "\<exists>k < length engines. engine_entry masses (i + k) (engines ! k) = Inl err"
  using assms
proof (induction engines arbitrary: i acc)
  case Nil
  then show ?case by simp
next
  case (Cons engine rest)
  show ?case
  proof (cases "engine_entry masses i engine")
    case (Inl e)
    with Cons.prems have "e = err" by simp
    with Inl have "engine_entry masses (i + 0) ((engine # rest) ! 0) = Inl err" by simp
    then show ?thesis by blast
  next
    case (Inr d)
    with Cons.prems have "entries_loop masses (Suc i) rest (acc @ [d]) = Inl err" by simp
    from Cons.IH [OF this] obtain k where "k < length rest"
      and "engine_entry masses (Suc i + k) (rest ! k) = Inl err" by blast
    then have "Suc k < length (engine # rest)"
      and "engine_entry masses (i + Suc k) ((engine # rest) ! Suc k) = Inl err" by simp_all
    then show ?thesis by blast
  qed
qed


lemma build_report_Inr:
  assumes "build_report engines masses = Inr r"
  shows "length (delta_v_list r) = length engines"
    and "\<And>k. k < length engines \<Longrightarrow>
           engine_entry masses k (engines ! k) = Inr (delta_v_list r ! k)"
    and "reduce_entries (delta_v_list r) = Inr r"
proof -
  from assms obtain dvl where l: "entries_loop masses 0 engines [] = Inr dvl"
    and r: "reduce_entries dvl = Inr r"
    by (auto simp: build_report_def split: sum.splits)
  from r have dvl: "delta_v_list r = dvl"
    by (auto simp: reduce_entries_returns)
  from entries_loop_Inr(1) [OF l] show "length (delta_v_list r) = length engines"
    by (simp add: dvl)
  from r show "reduce_entries (delta_v_list r) = Inr r"
    by (simp add: dvl)
  fix k assume "k < length engines"
  from entries_loop_Inr(3) [OF l this]
  show "engine_entry masses k (engines ! k) = Inr (delta_v_list r ! k)"
    by (simp add: dvl)
qed

lemma build_report_Inl:
  assumes "build_report engines masses = Inl err"
  shows "\<exists>k < length engines. engine_entry masses k (engines ! k) = Inl err"
proof -
  from assms have "entries_loop masses 0 engines [] = Inl err"
    by (auto simp: build_report_def reduce_entries_returns split: sum.splits)
  from entries_loop_Inl [OF this] show ?thesis by simp
qed

lemma build_report_returns:
  assumes "masses \<noteq> []"
    and "\<And>k. k < length engines \<Longrightarrow> masses ! min k (length masses - 1) \<noteq> 0"
  shows "\<exists>r. build_report engines masses = Inr r"
proof (cases "build_report engines masses")
  case (Inl err)
  from build_report_Inl [OF Inl] obtain k where k: "k < length engines"
    and e: "engine_entry masses k (engines ! k) = Inl err" by blast
  from engine_entry_returns [OF assms(1) assms(2) [OF k], of "engines ! k"] e
  show ?thesis by simp
next
  case (Inr r)
  then show ?thesis by blast
qed

lemma stages_start_mass_nth:
  "stages_start_mass self \<noteq> []"
  "length (stages_start_mass self) = 2"
  "stages_start_mass self ! 0 = satellite_bus_mass self + first_stage_mass self"
  "stages_start_mass self ! Suc 0 =
     satellite_bus_mass self + first_stage_mass self + second_stage_mass self"
  by (simp_all add: stages_start_mass_def Let_def)

text \<open>
  The method itself: it returns when the start mass of each engine is not zero, and raises
  \<^verbatim>\<open>ZeroDivisionError\<close> at the first engine when payload and first stage weigh nothing.
\<close>

lemma get_delta_v_status_Inr:
  assumes "get_delta_v_status self = Inr r"
  shows "length (delta_v_list r) = length (all_engines_status self)"
    and "\<And>k. k < length (all_engines_status self) \<Longrightarrow>
           engine_entry (stages_start_mass self) k (all_engines_status self ! k) =
             Inr (delta_v_list r ! k)"
    and "reduce_entries (delta_v_list r) = Inr r"
  using assms build_report_Inr [of "all_engines_status self" "stages_start_mass self" r]
  by (simp_all add: get_delta_v_status_def)

lemma get_delta_v_status_returns:
  assumes "satellite_bus_mass self + first_stage_mass self \<noteq> 0"
    and "length (all_engines_status self) \<le> 1
         \<or> satellite_bus_mass self + first_stage_mass self + second_stage_mass self \<noteq> 0"
  shows "\<exists>r. get_delta_v_status self = Inr r"
proof -
  have "stages_start_mass self ! min k (length (stages_start_mass self) - 1) \<noteq> 0"
    if "k < length (all_engines_status self)" for k
  proof (cases k)
    case 0
    then show ?thesis using assms(1) by (simp add: stages_start_mass_nth)
  next
    case (Suc j)
    with that assms(2) show ?thesis by (simp add: stages_start_mass_nth)
  qed
  from build_report_returns [OF stages_start_mass_nth(1), of "all_engines_status self" self, OF this]
  show ?thesis by (simp add: get_delta_v_status_def)
qed

lemma get_delta_v_status_zero_mass:
  assumes "all_engines_status self \<noteq> []"
    and "satellite_bus_mass self + first_stage_mass self = 0"
  shows "get_delta_v_status self = Inl ZeroDivisionError"
proof -
  from assms(1) obtain engine rest where e: "all_engines_status self = engine # rest"
    by (cases "all_engines_status self") auto
  have "engine_entry (stages_start_mass self) 0 engine = Inl ZeroDivisionError"
    using assms(2) by (intro engine_entry_zero_mass) (simp_all add: stages_start_mass_nth)
  then show ?thesis
    by (simp add: get_delta_v_status_def build_report_def e)
qed

section \<open>Properties\<close>

subsection \<open>The start masses\<close>

text \<open>
  Claim C1, as amended. The list of start masses has two entries: entry 0 is the payload
  mass plus the first-stage mass, and entry 1 is the payload mass plus the first-stage mass
  plus the second-stage mass. The sums run from the payload downwards in the order payload,
  first stage, second stage; entry 0 leaves the second stage out and entry 1 keeps the
  first stage in.
\<close>

theorem stages_start_mass_entries:
  "stages_start_mass self =
     [satellite_bus_mass self + first_stage_mass self,
      satellite_bus_mass self + first_stage_mass self + second_stage_mass self]"
  by (simp add: stages_start_mass_def Let_def)

text \<open>
  The claim as stated asks for entry 0 = payload + first stage + second stage and
  entry 1 = payload + second stage. With masses 1, 10 and 100 the code gives 11 and 111,
  not 111 and 101.
\<close>

theorem stages_start_mass_stack_counterexample:
  "\<not> (stages_start_mass \<lparr> satellite_bus_mass = 1, first_stage_mass = 10,
          second_stage_mass = 100, all_engines_status = [] \<rparr> ! 0 = 1 + 10 + 100
      \<and> stages_start_mass \<lparr> satellite_bus_mass = 1, first_stage_mass = 10,
          second_stage_mass = 100, all_engines_status = [] \<rparr> ! 1 = 1 + 100)"
  by (simp add: stages_start_mass_def Let_def)

text \<open>
  Claim C8, as amended. Entry 1 of the list of start masses is entry 0 plus the
  second-stage mass. So with a second-stage mass that is not negative the start mass does
  not decrease from index 0 to index 1.
\<close>

theorem start_mass_grows_with_index:
  "stages_start_mass self ! 1 = stages_start_mass self ! 0 + second_stage_mass self
   \<and> (0 \<le> second_stage_mass self \<longrightarrow> stages_start_mass self ! 0 \<le> stages_start_mass self ! 1)"
  by (simp add: stages_start_mass_def Let_def)

theorem start_mass_grows_with_index_witness:
  "(0::real) \<le> 100
   \<and> stages_start_mass \<lparr> satellite_bus_mass = 1, first_stage_mass = 10,
        second_stage_mass = 100, all_engines_status = [] \<rparr> ! 1
     = stages_start_mass \<lparr> satellite_bus_mass = 1, first_stage_mass = 10,
        second_stage_mass = 100, all_engines_status = [] \<rparr> ! 0 + 100
   \<and> stages_start_mass \<lparr> satellite_bus_mass = 1, first_stage_mass = 10,
        second_stage_mass = 100, all_engines_status = [] \<rparr> ! 0
     \<le> stages_start_mass \<lparr> satellite_bus_mass = 1, first_stage_mass = 10,
        second_stage_mass = 100, all_engines_status = [] \<rparr> ! 1"
  using start_mass_grows_with_index [of "\<lparr> satellite_bus_mass = 1, first_stage_mass = 10,
        second_stage_mass = 100, all_engines_status = [] \<rparr>"]
  by simp

text \<open>
  The claim as stated, a start mass that strictly decreases with the index, fails with
  masses 1, 10 and 100: the entries are 11 and 111.
\<close>

theorem start_mass_decreasing_counterexample:
  "\<not> (stages_start_mass \<lparr> satellite_bus_mass = 1, first_stage_mass = 10,
          second_stage_mass = 100, all_engines_status = [] \<rparr> ! 1
      < stages_start_mass \<lparr> satellite_bus_mass = 1, first_stage_mass = 10,
          second_stage_mass = 100, all_engines_status = [] \<rparr> ! 0)"
  by (simp add: stages_start_mass_def Let_def)

subsection \<open>The rocket equation and the burn time\<close>

text \<open>
  Claim C3. For every \<open>isp\<close>, \<open>fuelMass\<close> and \<open>startMass\<close> the delta-v is returned, never
  an exception: it is 0 when \<open>fuelMass \<le> 0\<close>, \<open>startMass - fuelMass \<le> 0\<close> or \<open>isp \<le> 0\<close>,
  and \<open>isp * 9.80665 * ln (startMass / (startMass - fuelMass))\<close> otherwise. At
  \<open>(300, 0, 5000)\<close> and at \<open>(300, 5000, 5000)\<close> it is 0, and at \<open>(300, 1000, 5000)\<close> it is
  \<open>300 * 9.80665 * ln (5 / 4)\<close>, a number between 656.47 and 656.51, within 0.53 of 657.
\<close>

theorem calculate_delta_v_contract:
  "calculate_delta_v i f s =
     Inr (if f \<le> 0 \<or> s - f \<le> 0 \<or> i \<le> 0 then 0 else i * 9.80665 * ln (s / (s - f)))
   \<and> calculate_delta_v 300 0 5000 = Inr 0
   \<and> calculate_delta_v 300 5000 5000 = Inr 0
   \<and> calculate_delta_v 300 1000 5000 = Inr (300 * 9.80665 * ln (5 / 4))
   \<and> \<bar>300 * 9.80665 * ln (5 / 4) - 657\<bar> < (0.53 :: real)"
proof -
  have "\<bar>300 * 9.80665 * ln (5 / 4) - 657\<bar> < (0.53 :: real)"
    using ln_five_quarters_bounds by simp
  then show ?thesis
    by (simp add: calculate_delta_v_returns)
qed

text \<open>
  Claim C6. For every \<open>isp\<close>, \<open>fuelMass\<close> and \<open>thrust\<close> the burn time is returned, never
  an exception: it is 0 when \<open>thrust \<le> 0\<close> or \<open>isp \<le> 0\<close>, and
  \<open>fuelMass * isp * 9.80665 / thrust\<close> otherwise; at \<open>(300, 1000, 0)\<close> it is 0.
\<close>

theorem burn_time_estimation_contract:
  "burn_time_estimation i f t =
     Inr (if t \<le> 0 \<or> i \<le> 0 then 0 else f * i * 9.80665 / t)
   \<and> burn_time_estimation 300 1000 0 = Inr 0"
  by (simp add: burn_time_estimation_returns)

subsection \<open>The entries of the report\<close>

text \<open>
  Claim C5. For every non-empty list of start masses and every list of engines for which
  the report is returned, the report has one entry for each engine, in list order: entry
  \<open>k\<close> is the entry that the loop body computes for the engine at position \<open>k\<close> with
  index \<open>k\<close>, so it carries that engine's stage, propellant mass and vacuum thrust, and its
  start mass is the one at index \<open>min k (length masses - 1)\<close>; with two start masses every
  engine from position 1 on has the start mass at index 1.
  The method calls \<open>build_report\<close> with its list of two start masses.
\<close>

theorem engine_start_mass_clamped:
  assumes "masses \<noteq> []" and "build_report engines masses = Inr r" and "k < length engines"
  shows "length (delta_v_list r) = length engines
    \<and> engine_entry masses k (engines ! k) = Inr (delta_v_list r ! k)
    \<and> entry_stage (delta_v_list r ! k) = stage (engines ! k)
    \<and> burned_mass (delta_v_list r ! k) = sum_list (propellants (engines ! k))
    \<and> entry_max_thrust (delta_v_list r ! k) = max_vacuum_thrust (engines ! k)
    \<and> start_mass (delta_v_list r ! k) = masses ! min k (length masses - 1)
    \<and> (length masses = 2 \<and> 1 \<le> k \<longrightarrow> start_mass (delta_v_list r ! k) = masses ! 1)"
proof -
  note e = build_report_Inr(2) [OF assms(2) assms(3)]
  have s: "start_mass (delta_v_list r ! k) = masses ! min k (length masses - 1)"
    by (rule engine_entry_fields(2) [OF e])
  have c: "length masses = 2 \<and> 1 \<le> k \<longrightarrow> start_mass (delta_v_list r ! k) = masses ! 1"
    using s by (auto simp: min_def)
  from build_report_Inr(1) [OF assms(2)] e engine_entry_fields(4) [OF e]
    engine_entry_fields(5) [OF e] engine_entry_fields(7) [OF e] s c
  show ?thesis by blast
qed

theorem engine_start_mass_clamped_witness:
  "\<exists>r. build_report
          [\<lparr> stage = 2, max_thrust = 1962, max_vacuum_thrust = 2943,
             specific_impulse_at = 250, vacuum_specific_impulse = 300, propellants = [30, 20] \<rparr>,
           \<lparr> stage = 1, max_thrust = 981, max_vacuum_thrust = 981,
             specific_impulse_at = 300, vacuum_specific_impulse = 340, propellants = [40] \<rparr>,
           \<lparr> stage = 0, max_thrust = 500, max_vacuum_thrust = 600,
             specific_impulse_at = 310, vacuum_specific_impulse = 350, propellants = [10] \<rparr>]
          [100, 200] = Inr r
     \<and> length (delta_v_list r) = 3
     \<and> entry_stage (delta_v_list r ! 0) = 2
     \<and> burned_mass (delta_v_list r ! 0) = 50
     \<and> entry_max_thrust (delta_v_list r ! 0) = 2943
     \<and> start_mass (delta_v_list r ! 0) = 100
     \<and> entry_stage (delta_v_list r ! 1) = 1
     \<and> burned_mass (delta_v_list r ! 1) = 40
     \<and> entry_max_thrust (delta_v_list r ! 1) = 981
     \<and> start_mass (delta_v_list r ! 1) = 200
     \<and> entry_stage (delta_v_list r ! 2) = 0
     \<and> burned_mass (delta_v_list r ! 2) = 10
     \<and> entry_max_thrust (delta_v_list r ! 2) = 600
     \<and> start_mass (delta_v_list r ! 2) = 200"
proof -
  let ?engines = "[\<lparr> stage = 2, max_thrust = 1962, max_vacuum_thrust = 2943,
             specific_impulse_at = 250, vacuum_specific_impulse = 300, propellants = [30, 20] \<rparr>,
           \<lparr> stage = 1, max_thrust = 981, max_vacuum_thrust = 981,
             specific_impulse_at = 300, vacuum_specific_impulse = 340, propellants = [40] \<rparr>,
           \<lparr> stage = 0, max_thrust = 500, max_vacuum_thrust = 600,
             specific_impulse_at = 310, vacuum_specific_impulse = 350, propellants = [10] \<rparr>]"
  have ne: "[100, 200 :: real] \<noteq> []" by simp
  have "[100, 200 :: real] ! min k (length [100, 200 :: real] - 1) \<noteq> 0" for k
    by (cases k) simp_all
  then obtain r where r: "build_report ?engines [100, 200] = Inr r"
    using build_report_returns [OF ne, of ?engines] by blast
  from engine_start_mass_clamped [OF ne r, of 0] engine_start_mass_clamped [OF ne r, of 1]
    engine_start_mass_clamped [OF ne r, of 2] r
  show ?thesis by simp
qed

text \<open>
  Claim C2, as amended. In every report that is returned, the entry of the engine at
  position \<open>k\<close> has \<open>twr\<close> equal to the engine's maximum vacuum thrust divided by
  \<open>start_mass * 9.81\<close> and \<open>slt\<close> equal to the engine's maximum thrust divided by
  \<open>start_mass * 9.81\<close>: the constant of lines 226--227 is the literal \<open>9.81\<close>.
\<close>

theorem twr_slt_formula:
  assumes "get_delta_v_status self = Inr r" and "k < length (delta_v_list r)"
  shows "k < length (all_engines_status self)
    \<and> twr (delta_v_list r ! k) =
        max_vacuum_thrust (all_engines_status self ! k) / (start_mass (delta_v_list r ! k) * 9.81)
    \<and> slt (delta_v_list r ! k) =
        max_thrust (all_engines_status self ! k) / (start_mass (delta_v_list r ! k) * 9.81)"
proof -
  from assms have k: "k < length (all_engines_status self)"
    by (simp add: get_delta_v_status_Inr(1))
  note e = get_delta_v_status_Inr(2) [OF assms(1) k]
  from k engine_entry_fields(8) [OF e] engine_entry_fields(9) [OF e] show ?thesis
    by simp
qed

theorem twr_slt_formula_witness:
  "\<exists>r. get_delta_v_status \<lparr> satellite_bus_mass = 20, first_stage_mass = 80,
          second_stage_mass = 100, all_engines_status =
            [\<lparr> stage = 1, max_thrust = 1962, max_vacuum_thrust = 2943,
               specific_impulse_at = 250, vacuum_specific_impulse = 300,
               propellants = [30, 20] \<rparr>] \<rparr> = Inr r
     \<and> 0 < length (delta_v_list r)
     \<and> twr (delta_v_list r ! 0) = 2943 / (start_mass (delta_v_list r ! 0) * 9.81)
     \<and> slt (delta_v_list r ! 0) = 1962 / (start_mass (delta_v_list r ! 0) * 9.81)
     \<and> start_mass (delta_v_list r ! 0) = 100"
proof -
  let ?self = "\<lparr> satellite_bus_mass = 20, first_stage_mass = 80,
          second_stage_mass = 100, all_engines_status =
            [\<lparr> stage = 1, max_thrust = 1962, max_vacuum_thrust = 2943,
               specific_impulse_at = 250, vacuum_specific_impulse = 300,
               propellants = [30, 20] \<rparr>] \<rparr>"
  obtain r where r: "get_delta_v_status ?self = Inr r"
    using get_delta_v_status_returns [of ?self] by auto
  have len: "0 < length (delta_v_list r)"
    using get_delta_v_status_Inr(1) [OF r] by simp
  have m: "start_mass (delta_v_list r ! 0) = 100"
    using engine_entry_fields(2) [OF get_delta_v_status_Inr(2) [OF r, of 0]]
    by (simp add: stages_start_mass_nth)
  from twr_slt_formula [OF r len] m r len show ?thesis
    by simp
qed

text \<open>
  The claim as stated has the constant 9.80665. For an engine of vacuum thrust 2943 and
  thrust 1962 on a start mass of 100, the code returns \<open>twr = 3\<close> and \<open>slt = 2\<close>, that is
  \<open>2943 / 981\<close> and \<open>1962 / 981\<close>, not \<open>2943 / 980.665\<close> and \<open>1962 / 980.665\<close>.
\<close>

theorem twr_g0_counterexample:
  "get_delta_v_status \<lparr> satellite_bus_mass = 20, first_stage_mass = 80,
          second_stage_mass = 100, all_engines_status =
            [\<lparr> stage = 1, max_thrust = 1962, max_vacuum_thrust = 2943,
               specific_impulse_at = 250, vacuum_specific_impulse = 300,
               propellants = [30, 20] \<rparr>] \<rparr> =
     Inr \<lparr> stage_delta_v_atom = 250 * 9.80665 * ln 2,
           stage_delta_v_vac = 300 * 9.80665 * ln 2,
           total_delta_v_atom = 250 * 9.80665 * ln 2,
           total_delta_v_vac = 300 * 9.80665 * ln 2,
           delta_v_list =
             [\<lparr> entry_stage = 1, start_mass = 100, end_mass = 50, burned_mass = 50,
                entry_max_thrust = 2943, twr = 3, slt = 2, isp = 250,
                atom_delta_v = 250 * 9.80665 * ln 2,
                vac_delta_v = 300 * 9.80665 * ln 2,
                time = 50 * 250 * 9.80665 / 1962 \<rparr>] \<rparr>
   \<and> \<not> ((3 :: real) = 2943 / (100 * 9.80665) \<and> (2 :: real) = 1962 / (100 * 9.80665))"
  by (simp add: get_delta_v_status_def build_report_def stages_start_mass_def Let_def
      engine_entry_def getitem_def truediv_def py_sum_def calculate_delta_v_def math_log_def
      burn_time_estimation_def g0_def reduce_entries_def last_field_def)

text \<open>
  Claim C10. In every report that is returned, the field \<^verbatim>\<open>max_thrust\<close> of the entry
  of the engine at position \<open>k\<close> is the engine's \<^verbatim>\<open>max_vacuum_thrust\<close>, while \<open>slt\<close> and
  the burn time are computed from the engine's \<^verbatim>\<open>max_thrust\<close>.
\<close>

theorem max_thrust_field_is_vacuum_thrust:
  assumes "get_delta_v_status self = Inr r" and "k < length (delta_v_list r)"
  shows "k < length (all_engines_status self)
    \<and> entry_max_thrust (delta_v_list r ! k) = max_vacuum_thrust (all_engines_status self ! k)
    \<and> slt (delta_v_list r ! k) =
        max_thrust (all_engines_status self ! k) / (start_mass (delta_v_list r ! k) * 9.81)
    \<and> burn_time_estimation (specific_impulse_at (all_engines_status self ! k))
        (sum_list (propellants (all_engines_status self ! k)))
        (max_thrust (all_engines_status self ! k)) = Inr (time (delta_v_list r ! k))"
proof -
  from assms have k: "k < length (all_engines_status self)"
    by (simp add: get_delta_v_status_Inr(1))
  note e = get_delta_v_status_Inr(2) [OF assms(1) k]
  from k engine_entry_fields(7) [OF e] engine_entry_fields(9) [OF e]
    engine_entry_fields(13) [OF e]
  show ?thesis by simp
qed

theorem max_thrust_field_is_vacuum_thrust_witness:
  "\<exists>r. get_delta_v_status \<lparr> satellite_bus_mass = 20, first_stage_mass = 80,
          second_stage_mass = 100, all_engines_status =
            [\<lparr> stage = 1, max_thrust = 1962, max_vacuum_thrust = 2943,
               specific_impulse_at = 250, vacuum_specific_impulse = 300,
               propellants = [30, 20] \<rparr>] \<rparr> = Inr r
     \<and> 0 < length (delta_v_list r)
     \<and> entry_max_thrust (delta_v_list r ! 0) = 2943
     \<and> entry_max_thrust (delta_v_list r ! 0) \<noteq> 1962
     \<and> slt (delta_v_list r ! 0) = 1962 / (start_mass (delta_v_list r ! 0) * 9.81)
     \<and> burn_time_estimation 250 50 1962 = Inr (time (delta_v_list r ! 0))"
proof -
  let ?self = "\<lparr> satellite_bus_mass = 20, first_stage_mass = 80,
          second_stage_mass = 100, all_engines_status =
            [\<lparr> stage = 1, max_thrust = 1962, max_vacuum_thrust = 2943,
               specific_impulse_at = 250, vacuum_specific_impulse = 300,
               propellants = [30, 20] \<rparr>] \<rparr>"
  obtain r where r: "get_delta_v_status ?self = Inr r"
    using get_delta_v_status_returns [of ?self] by auto
  have len: "0 < length (delta_v_list r)"
    using get_delta_v_status_Inr(1) [OF r] by simp
  from max_thrust_field_is_vacuum_thrust [OF r len] r len show ?thesis
    by simp
qed

subsection \<open>The totals\<close>

text \<open>
  Claim C4. In every report that is returned, \<open>total_delta_v_atom\<close> is the sum of
  \<open>atom_delta_v\<close> over the entries of \<open>delta_v_list\<close> and \<open>total_delta_v_vac\<close> the sum of
  \<open>vac_delta_v\<close> (the left-to-right sum of the builtin, which over the reals is the sum of
  the list); and when \<open>delta_v_list\<close> is not empty, \<open>stage_delta_v_atom\<close> and
  \<open>stage_delta_v_vac\<close> are the two fields of its last entry.
\<close>

theorem totals_and_stage_figures:
  assumes "get_delta_v_status self = Inr r"
  shows "total_delta_v_atom r = sum_list (map atom_delta_v (delta_v_list r))
    \<and> total_delta_v_vac r = sum_list (map vac_delta_v (delta_v_list r))
    \<and> total_delta_v_atom r = py_sum (map atom_delta_v (delta_v_list r))
    \<and> total_delta_v_vac r = py_sum (map vac_delta_v (delta_v_list r))
    \<and> (delta_v_list r \<noteq> [] \<longrightarrow>
          stage_delta_v_atom r = atom_delta_v (last (delta_v_list r))
        \<and> stage_delta_v_vac r = vac_delta_v (last (delta_v_list r)))"
proof -
  note red = get_delta_v_status_Inr(3) [OF assms]
  from reduce_entries_Inr(2) [OF red] reduce_entries_Inr(3) [OF red]
    reduce_entries_Inr(4) [OF red] reduce_entries_Inr(5) [OF red]
  show ?thesis
    by (simp add: py_sum_sum_list)
qed

theorem totals_and_stage_figures_witness:
  "\<exists>r. get_delta_v_status \<lparr> satellite_bus_mass = 20, first_stage_mass = 80,
          second_stage_mass = 100, all_engines_status =
            [\<lparr> stage = 1, max_thrust = 1962, max_vacuum_thrust = 2943,
               specific_impulse_at = 250, vacuum_specific_impulse = 300,
               propellants = [30, 20] \<rparr>,
             \<lparr> stage = 0, max_thrust = 981, max_vacuum_thrust = 981,
               specific_impulse_at = 300, vacuum_specific_impulse = 340,
               propellants = [40] \<rparr>] \<rparr> = Inr r
     \<and> length (delta_v_list r) = 2
     \<and> total_delta_v_atom r = atom_delta_v (delta_v_list r ! 0) + atom_delta_v (delta_v_list r ! 1)
     \<and> total_delta_v_vac r = vac_delta_v (delta_v_list r ! 0) + vac_delta_v (delta_v_list r ! 1)
     \<and> stage_delta_v_atom r = atom_delta_v (delta_v_list r ! 1)
     \<and> stage_delta_v_vac r = vac_delta_v (delta_v_list r ! 1)
     \<and> atom_delta_v (delta_v_list r ! 0) = 250 * 9.80665 * ln 2
     \<and> atom_delta_v (delta_v_list r ! 1) = 300 * 9.80665 * ln (5 / 4)"
proof -
  let ?self = "\<lparr> satellite_bus_mass = 20, first_stage_mass = 80,
          second_stage_mass = 100, all_engines_status =
            [\<lparr> stage = 1, max_thrust = 1962, max_vacuum_thrust = 2943,
               specific_impulse_at = 250, vacuum_specific_impulse = 300,
               propellants = [30, 20] \<rparr>,
             \<lparr> stage = 0, max_thrust = 981, max_vacuum_thrust = 981,
               specific_impulse_at = 300, vacuum_specific_impulse = 340,
               propellants = [40] \<rparr>] \<rparr>"
  obtain r where r: "get_delta_v_status ?self = Inr r"
    using get_delta_v_status_returns [of ?self] by auto
  have len: "length (delta_v_list r) = 2"
    using get_delta_v_status_Inr(1) [OF r] by simp
  then obtain d0 d1 where d: "delta_v_list r = [d0, d1]"
    by (auto simp: length_Suc_conv numeral_2_eq_2)
  note e0 = get_delta_v_status_Inr(2) [OF r, of 0]
  note e1 = get_delta_v_status_Inr(2) [OF r, of 1]
  have m0: "start_mass d0 = 100"
    using engine_entry_fields(2) [OF e0] by (simp add: stages_start_mass_nth d)
  have m1: "start_mass d1 = 200"
    using engine_entry_fields(2) [OF e1] by (simp add: stages_start_mass_nth d)
  have a0: "atom_delta_v d0 = 250 * 9.80665 * ln 2"
    using engine_entry_fields(12) [OF e0] m0 by (simp add: d calculate_delta_v_returns)
  have a1: "atom_delta_v d1 = 300 * 9.80665 * ln (5 / 4)"
    using engine_entry_fields(12) [OF e1] m1 by (simp add: d calculate_delta_v_returns)
  from totals_and_stage_figures [OF r] r a0 a1 show ?thesis
    by (simp add: d)
qed

subsection \<open>A start mass of zero\<close>

text \<open>
  Claim C7 says that the report is built without raising on zero or negative thrust,
  specific impulse, fuel mass or start mass. With a payload and a first stage of mass 0
  and one engine, the division of line 226 raises \<^verbatim>\<open>ZeroDivisionError\<close>: no report is
  returned.
\<close>

theorem zero_start_mass_raises:
  "get_delta_v_status \<lparr> satellite_bus_mass = 0, first_stage_mass = 0,
          second_stage_mass = 100, all_engines_status =
            [\<lparr> stage = 1, max_thrust = 1962, max_vacuum_thrust = 2943,
               specific_impulse_at = 250, vacuum_specific_impulse = 300,
               propellants = [30, 20] \<rparr>] \<rparr> = Inl ZeroDivisionError"
  by (simp add: get_delta_v_status_def build_report_def stages_start_mass_def Let_def
      engine_entry_def getitem_def truediv_def)

subsection \<open>An empty engine list\<close>

text \<open>
  Claim C9. With no engine, the report is returned, not an exception: the two stage figures
  and the two totals are 0 and \<open>delta_v_list\<close> is empty. This holds for every list of
  start masses (the empty one too), hence for the method itself whatever the masses are.
\<close>

theorem empty_engines_report:
  "build_report [] masses =
     Inr \<lparr> stage_delta_v_atom = 0, stage_delta_v_vac = 0,
           total_delta_v_atom = 0, total_delta_v_vac = 0, delta_v_list = [] \<rparr>
   \<and> get_delta_v_status (self\<lparr> all_engines_status := [] \<rparr>) =
     Inr \<lparr> stage_delta_v_atom = 0, stage_delta_v_vac = 0,
           total_delta_v_atom = 0, total_delta_v_vac = 0, delta_v_list = [] \<rparr>"
  by (simp add: get_delta_v_status_def build_report_def reduce_entries_def last_field_def
      py_sum_def)

end
